theory Spec2Isabelle
  imports Main "HOL-Library.Finite_Map" "HOL-Library.Sublist"
begin

section \<open>The Notes component: client state and its four API operations\<close>

text \<open>
  The source is \<open>src/components/Notes.tsx\<close>: a React component holding four pieces of
  state (\<open>apiData\<close>, \<open>isLoading\<close>, \<open>note\<close>, \<open>message\<close>) and four asynchronous
  functions (\<open>fetchData\<close>, \<open>createNote\<close>, \<open>updateNote\<close>, \<open>deleteNote\<close>) that talk to
  the notes API with \<open>fetch\<close>, plus an effect that schedules a reset timer.

  Each asynchronous function is embedded as a function from the component state at the
  moment of the call and the outcome of its one network call to the component state
  after the function has settled. No other event is interleaved with a call, so the
  \<open>apiData\<close> and \<open>note\<close> captured by the handler's closure are those of the state passed in.
  Successive state setters inside one call are applied in order; the last write to a
  field wins.
\<close>

subsection \<open>Values\<close>

text \<open>
  \<open>response.json()\<close> has type \<open>any\<close>: what it returns is stored into \<open>apiData\<close> and
  \<open>message\<close> without a check, so both hold arbitrary JavaScript values at run time.
  Numbers are modelled as integers, the type of note ids. An object is a finite map from
  property names to values; the enumeration order of properties is never observed by the
  component.
\<close>

datatype jsval =
    JUndefined
  | JNull
  | JBool bool
  | JNum int
  | JStr string
  | JArr "jsval list"
  | JObj "(string, jsval) fmap"

text \<open>JavaScript truthiness, as used by \<open>!x\<close>, \<open>x || y\<close>, \<open>x ? a : b\<close> and \<open>if (x)\<close>.\<close>

fun truthy :: "jsval \<Rightarrow> bool" where
  "truthy JUndefined = False"
| "truthy JNull = False"
| "truthy (JBool b) = b"
| "truthy (JNum n) = (n \<noteq> 0)"
| "truthy (JStr s) = (s \<noteq> [])"
| "truthy (JArr xs) = True"
| "truthy (JObj m) = True"

datatype js_error = TypeError

text \<open>
  Reading a property \<open>v.k\<close> whose name \<open>k\<close> is not a built-in of any prototype (the
  component reads \<open>result\<close> only): \<open>null\<close> and \<open>undefined\<close> throw, an object yields its
  own property or \<open>undefined\<close>, every other value yields \<open>undefined\<close>.
\<close>

fun get_prop :: "jsval \<Rightarrow> string \<Rightarrow> js_error + jsval" where
  "get_prop JUndefined k = Inl TypeError"
| "get_prop JNull k = Inl TypeError"
| "get_prop (JObj m) k = Inr (case fmlookup m k of None \<Rightarrow> JUndefined | Some v \<Rightarrow> v)"
| "get_prop v k = Inr JUndefined"

text \<open>
  Spreading into an array literal, \<open>[...v]\<close>: an array yields its elements, a string
  its characters, anything else is not iterable.
\<close>

fun spread :: "jsval \<Rightarrow> js_error + jsval list" where
  "spread (JArr xs) = Inr xs"
| "spread (JStr s) = Inr (map (\<lambda>c. JStr [c]) s)"
| "spread v = Inl TypeError"

text \<open>\<open>Array.prototype.map\<close> and \<open>filter\<close> with a callback that may throw.\<close>

fun map_js :: "('a \<Rightarrow> js_error + 'b) \<Rightarrow> 'a list \<Rightarrow> js_error + 'b list" where
  "map_js f [] = Inr []"
| "map_js f (x # xs) =
     (case f x of
        Inl e \<Rightarrow> Inl e
      | Inr y \<Rightarrow> (case map_js f xs of Inl e \<Rightarrow> Inl e | Inr ys \<Rightarrow> Inr (y # ys)))"

fun filter_js :: "('a \<Rightarrow> js_error + bool) \<Rightarrow> 'a list \<Rightarrow> js_error + 'a list" where
  "filter_js p [] = Inr []"
| "filter_js p (x # xs) =
     (case p x of
        Inl e \<Rightarrow> Inl e
      | Inr b \<Rightarrow>
          (case filter_js p xs of
             Inl e \<Rightarrow> Inl e
           | Inr ys \<Rightarrow> Inr (if b then x # ys else ys)))"

subsection \<open>Notes, requests, responses, component state\<close>

text \<open>The type \<open>Note\<close> of the source; the draft \<open>note\<close> has type \<open>Note | null\<close>.\<close>

record Note =
  id' :: int
  title :: string
  content :: string

text \<open>The draft that the form is reset to: \<open>{ id: 0, title: "", content: "" }\<close>.\<close>

definition sentinel :: Note where
  "sentinel = \<lparr>id' = 0, title = [], content = []\<rparr>"

text \<open>A \<open>Note\<close> as the value that \<open>response.json()\<close> yields for it.\<close>

definition note_json :: "Note \<Rightarrow> jsval" where
  "note_json n =
     JObj (fmap_of_list
       [(''id'', JNum (id' n)), (''title'', JStr (title n)), (''content'', JStr (content n))])"

text \<open>
  The network calls issued, relative to \<open>API_URL\<close>: \<open>PUT\<close> and \<open>DELETE\<close> carry the id of
  the path, \<open>POST\<close> and \<open>PUT\<close> the draft that \<open>JSON.stringify(note)\<close> serialises.
\<close>

datatype request = GET | POST Note | PUT int "Note option" | DELETE int

text \<open>
  How one network call settles: \<open>fetch\<close> rejects, \<open>response.json()\<close> rejects, or the
  body parses to a value.
\<close>

datatype response = NetworkError | ParseError | Body jsval

text \<open>
  The four \<open>useState\<close> cells, the log of network calls issued, the lines written with
  \<open>console.error\<close>, and the delays of the timers started with \<open>setTimeout\<close>.
\<close>

record state =
  apiData :: jsval
  isLoading :: bool
  "note" :: "Note option"
  message :: jsval
  requests :: "request list"
  console :: "string list"
  timers :: "nat list"

definition initial :: state where
  "initial =
     \<lparr>apiData = JNull, isLoading = False, note = None, message = JNull,
      requests = [], console = [], timers = []\<rparr>"

text \<open>
  A \<open>try\<close> block either runs to its end or throws; both carry the state reached, since
  the setters called before a throw have taken effect.
\<close>

datatype outcome = Completed state | Threw state

text \<open>The entries of the local note list; \<open>null\<close> (never loaded) has none.\<close>

fun entries :: "jsval \<Rightarrow> jsval list" where
  "entries (JArr xs) = xs"
| "entries v = []"

text \<open>An entry carries id \<open>i\<close>: it is an object whose \<open>id\<close> property is the number \<open>i\<close>.\<close>

fun has_id :: "int \<Rightarrow> jsval \<Rightarrow> bool" where
  "has_id i (JObj m) = (fmlookup m ''id'' = Some (JNum i))"
| "has_id i v = False"

text \<open>The render colours a message red when \<open>message.startsWith("Error:")\<close>.\<close>

fun is_error_message :: "jsval \<Rightarrow> bool" where
  "is_error_message (JStr s) = prefix ''Error:'' s"
| "is_error_message v = False"

subsection \<open>fetchData\<close>

text \<open>
  \<open>try { setIsLoading(true); fetch; json; setApiData(data) } catch { console.error }
  finally { setIsLoading(false) }\<close>.
\<close>

definition fetchData_try :: "state \<Rightarrow> response \<Rightarrow> outcome" where
  "fetchData_try st r =
     (let st1 = st\<lparr>isLoading := True\<rparr>;
          st2 = st1\<lparr>requests := requests st1 @ [GET]\<rparr>
      in case r of
           NetworkError \<Rightarrow> Threw st2
         | ParseError \<Rightarrow> Threw st2
         | Body data \<Rightarrow> Completed (st2\<lparr>apiData := data\<rparr>))"

definition fetchData :: "state \<Rightarrow> response \<Rightarrow> state" where
  "fetchData st r =
     (let st' = (case fetchData_try st r of
                   Completed s \<Rightarrow> s
                 | Threw s \<Rightarrow> s\<lparr>console := console s @ [''Error fetching data:'']\<rparr>)
      in st'\<lparr>isLoading := False\<rparr>)"

subsection \<open>The reset effect\<close>

text \<open>
  The body of the second \<open>useEffect\<close>: \<open>if (message) setTimeout(callback, 3000)\<close>.
  React runs it after a render in which \<open>message\<close> or \<open>note\<close> changed.
\<close>

definition resetEffect :: "state \<Rightarrow> state" where
  "resetEffect st =
     (if truthy (message st) then st\<lparr>timers := timers st @ [3000]\<rparr> else st)"

text \<open>The timer's callback: \<open>setMessage(null); setNote(null); fetchData()\<close>.\<close>

definition resetCallback :: "state \<Rightarrow> response \<Rightarrow> state" where
  "resetCallback st r = fetchData (st\<lparr>message := JNull, note := None\<rparr>) r"

subsection \<open>createNote\<close>

text \<open>The early return of \<open>createNote\<close> when the draft is missing or incomplete.\<close>

definition required_error :: "state \<Rightarrow> state" where
  "required_error st =
     st\<lparr>console := console st @ [''Error: Note title and content are required.''],
        message := JStr ''Error: Note title and content are required.''\<rparr>"

definition createNote_try :: "state \<Rightarrow> response \<Rightarrow> outcome" where
  "createNote_try st r =
     (case note st of
        None \<Rightarrow> Completed (required_error st)
      | Some n \<Rightarrow>
          if title n = [] \<or> content n = [] then Completed (required_error st)
          else
            let st1 = st\<lparr>requests := requests st @ [POST n]\<rparr> in
            (case r of
               NetworkError \<Rightarrow> Threw st1
             | ParseError \<Rightarrow> Threw st1
             | Body data \<Rightarrow>
                 let st2 = st1\<lparr>message :=
                             JStr (if truthy data then ''Note created successfully!''
                                   else ''Error: Failed to create note.'')\<rparr>;
                     st3 = st2\<lparr>note := Some sentinel\<rparr>
                 in (case spread (if truthy (apiData st) then apiData st else JArr []) of
                       Inl e \<Rightarrow> Threw st3
                     | Inr xs \<Rightarrow> Completed (st3\<lparr>apiData := JArr (xs @ [data])\<rparr>))))"

definition createNote :: "state \<Rightarrow> response \<Rightarrow> state" where
  "createNote st r =
     (case createNote_try st r of
        Completed s \<Rightarrow> s
      | Threw s \<Rightarrow>
          s\<lparr>console := console s @ [''Error creating note:''],
            message := JStr ''Error: Failed to create note.''\<rparr>)"

subsection \<open>updateNote\<close>

text \<open>
  The callback of \<open>map\<close>: \<open>note => (note.id === id ? { ...note, ...note } : note)\<close>.
  Reading \<open>.id\<close> of \<open>null\<close> throws; only an object can have an \<open>id\<close> equal to a number,
  and spreading it twice into a fresh object overrides its properties with themselves.
\<close>

fun update_entry :: "int \<Rightarrow> jsval \<Rightarrow> js_error + jsval" where
  "update_entry i JUndefined = Inl TypeError"
| "update_entry i JNull = Inl TypeError"
| "update_entry i (JObj m) =
     Inr (if fmlookup m ''id'' = Some (JNum i) then JObj (fmadd m m) else JObj m)"
| "update_entry i v = Inr v"

text \<open>
  \<open>apiData?.map(f) || []\<close>: \<open>null\<close> short-circuits to \<open>undefined\<close> and then to \<open>[]\<close>;
  an array is mapped (the result, an array, is truthy); any other value has no callable
  \<open>map\<close>.
\<close>

definition updateNote_try :: "state \<Rightarrow> int \<Rightarrow> response \<Rightarrow> outcome" where
  "updateNote_try st i r =
     (let st1 = st\<lparr>requests := requests st @ [PUT i (note st)]\<rparr> in
      case r of
        NetworkError \<Rightarrow> Threw st1
      | ParseError \<Rightarrow> Threw st1
      | Body data \<Rightarrow>
          (case get_prop data ''result'' of
             Inl e \<Rightarrow> Threw st1
           | Inr res \<Rightarrow>
               let st2 = st1\<lparr>message := res\<rparr> in
               (case apiData st of
                  JNull \<Rightarrow> Completed (st2\<lparr>apiData := JArr []\<rparr>)
                | JUndefined \<Rightarrow> Completed (st2\<lparr>apiData := JArr []\<rparr>)
                | JArr xs \<Rightarrow>
                    (case map_js (update_entry i) xs of
                       Inl e \<Rightarrow> Threw st2
                     | Inr ys \<Rightarrow> Completed (st2\<lparr>apiData := JArr ys\<rparr>))
                | _ \<Rightarrow> Threw st2)))"

definition updateNote :: "state \<Rightarrow> int \<Rightarrow> response \<Rightarrow> state" where
  "updateNote st i r =
     (case updateNote_try st i r of
        Completed s \<Rightarrow> s
      | Threw s \<Rightarrow>
          s\<lparr>console := console s @ [''Error updating note:''],
            message := JStr ''Error: Failed to update note.''\<rparr>)"

subsection \<open>deleteNote\<close>

text \<open>The callback of \<open>filter\<close>: \<open>note => note.id !== id\<close>.\<close>

fun keep_entry :: "int \<Rightarrow> jsval \<Rightarrow> js_error + bool" where
  "keep_entry i JUndefined = Inl TypeError"
| "keep_entry i JNull = Inl TypeError"
| "keep_entry i (JObj m) = Inr (fmlookup m ''id'' \<noteq> Some (JNum i))"
| "keep_entry i v = Inr True"

definition deleteNote_try :: "state \<Rightarrow> int \<Rightarrow> response \<Rightarrow> outcome" where
  "deleteNote_try st i r =
     (let st1 = st\<lparr>requests := requests st @ [DELETE i]\<rparr> in
      case r of
        NetworkError \<Rightarrow> Threw st1
      | ParseError \<Rightarrow> Threw st1
      | Body data \<Rightarrow>
          (case get_prop data ''result'' of
             Inl e \<Rightarrow> Threw st1
           | Inr res \<Rightarrow>
               let st2 = st1\<lparr>message := res\<rparr> in
               (case apiData st of
                  JNull \<Rightarrow> Completed (st2\<lparr>apiData := JArr []\<rparr>)
                | JUndefined \<Rightarrow> Completed (st2\<lparr>apiData := JArr []\<rparr>)
                | JArr xs \<Rightarrow>
                    (case filter_js (keep_entry i) xs of
                       Inl e \<Rightarrow> Threw st2
                     | Inr ys \<Rightarrow> Completed (st2\<lparr>apiData := JArr ys\<rparr>))
                | _ \<Rightarrow> Threw st2)))"

definition deleteNote :: "state \<Rightarrow> int \<Rightarrow> response \<Rightarrow> state" where
  "deleteNote st i r =
     (case deleteNote_try st i r of
        Completed s \<Rightarrow> s
      | Threw s \<Rightarrow>
          s\<lparr>console := console s @ [''Error deleting note:''],
            message := JStr ''Error: Failed to delete note.''\<rparr>)"

subsection \<open>The title input\<close>

text \<open>
  \<open>onChange\<close> of the title field:
  \<open>setNote({ id: note?.id ?? 0, title: e.target.value, content: note?.content ?? "" })\<close>.
\<close>

definition onChangeTitle :: "state \<Rightarrow> string \<Rightarrow> state" where
  "onChangeTitle st v =
     st\<lparr>note := Some \<lparr>id' = (case note st of None \<Rightarrow> 0 | Some n \<Rightarrow> id' n),
                       title = v,
                       content = (case note st of None \<Rightarrow> [] | Some n \<Rightarrow> content n)\<rparr>\<rparr>"

subsection \<open>Concrete inputs\<close>

text \<open>
  The draft and the created note of the scenario
  \<open>{id:0, title:"Milk", content:"2%"}\<close> \<open>\<rightarrow>\<close> \<open>{id:7, title:"Milk", content:"2%"}\<close>, a body
  \<open>{ result: s }\<close> as \<open>PUT\<close> and \<open>DELETE\<close> answer it, and a list in which two entries
  carry the same id.
\<close>

definition milk_draft :: Note where
  "milk_draft = \<lparr>id' = 0, title = ''Milk'', content = ''2%''\<rparr>"

definition milk_saved :: Note where
  "milk_saved = \<lparr>id' = 7, title = ''Milk'', content = ''2%''\<rparr>"

definition result_body :: "string \<Rightarrow> response" where
  "result_body s = Body (JObj (fmap_of_list [(''result'', JStr s)]))"

definition twins :: state where
  "twins = initial\<lparr>apiData :=
     JArr [note_json \<lparr>id' = 1, title = ''a'', content = ''b''\<rparr>,
           note_json \<lparr>id' = 1, title = ''c'', content = ''d''\<rparr>]\<rparr>"

section \<open>Properties\<close>

subsection \<open>Auxiliary facts\<close>

lemmas ex_defs = initial_def milk_draft_def milk_saved_def result_body_def
  note_json_def sentinel_def fmlookup_of_list

text \<open>The callback of \<open>map\<close> returns the entry it was given whenever it returns.\<close>

lemma update_entry_same: "update_entry i v = Inr w \<Longrightarrow> w = v"
  by (cases v) (auto split: if_splits)

lemma map_js_update_entry: "map_js (update_entry i) xs = Inr ys \<Longrightarrow> ys = xs"
proof (induction xs arbitrary: ys)
  case Nil
  then show ?case by simp
next
  case (Cons x xs)
  then show ?case
    by (auto split: sum.splits dest: update_entry_same)
qed

text \<open>The callback of \<open>filter\<close> keeps exactly the entries that do not carry the id.\<close>

lemma keep_entry_has_id: "keep_entry i v = Inr b \<Longrightarrow> b = (\<not> has_id i v)"
  by (cases v) auto

lemma filter_js_keep_entry:
  "filter_js (keep_entry i) xs = Inr ys \<Longrightarrow> ys = filter (\<lambda>v. \<not> has_id i v) xs"
proof (induction xs arbitrary: ys)
  case Nil
  then show ?case by simp
next
  case (Cons x xs)
  then show ?case
    by (auto split: sum.splits dest: keep_entry_has_id)
qed

lemma deleteNote_try_array:
  assumes "deleteNote_try st i r = Completed st'" and "apiData st = JArr xs"
  shows "apiData st' = JArr (filter (\<lambda>v. \<not> has_id i v) xs)"
  using assms
  by (auto simp: deleteNote_try_def Let_def split: response.splits sum.splits
      dest: filter_js_keep_entry)

lemma updateNote_try_array:
  assumes "updateNote_try st i r = Completed st'" and "apiData st = JArr xs"
  shows "apiData st' = JArr xs"
  using assms
  by (auto simp: updateNote_try_def Let_def split: response.splits sum.splits
      dest: map_js_update_entry)

lemma deleteNote_Completed:
  "deleteNote_try st i r = Completed st' \<Longrightarrow> deleteNote st i r = st'"
  by (simp add: deleteNote_def)

lemma updateNote_Completed:
  "updateNote_try st i r = Completed st' \<Longrightarrow> updateNote st i r = st'"
  by (simp add: updateNote_def)

text \<open>
  What \<open>createNote\<close> does once the POST has resolved and its body has parsed to \<open>d\<close>,
  when the local list is an array or falsy (\<open>null\<close> before the first load).
\<close>

lemma createNote_posted:
  assumes "note st = Some n" and "title n \<noteq> []" and "content n \<noteq> []"
    and "\<not> truthy (apiData st) \<or> apiData st = JArr xs"
  shows "createNote st (Body d) =
     st\<lparr>requests := requests st @ [POST n],
        message := JStr (if truthy d then ''Note created successfully!''
                         else ''Error: Failed to create note.''),
        note := Some sentinel,
        apiData := JArr (entries (apiData st) @ [d])\<rparr>"
  using assms
  by (cases "apiData st") (auto simp: createNote_def createNote_try_def Let_def)

text \<open>How each mutation of the list relates the entries before and after.\<close>

lemma createNote_entries_prefix:
  "prefix (entries (apiData st)) (entries (apiData (createNote st r)))"
  by (cases "apiData st")
    (auto simp: createNote_def createNote_try_def required_error_def Let_def
      split: option.splits response.splits)

lemma updateNote_entries:
  "entries (apiData (updateNote st i r)) = entries (apiData st)"
  by (cases "apiData st")
    (auto simp: updateNote_def updateNote_try_def Let_def
      split: response.splits sum.splits dest: map_js_update_entry)

lemma deleteNote_entries_subseq:
  "subseq (entries (apiData (deleteNote st i r))) (entries (apiData st))"
  by (cases "apiData st")
    (auto simp: deleteNote_def deleteNote_try_def Let_def
      split: response.splits sum.splits dest: filter_js_keep_entry)

subsection \<open>createNote: validation\<close>

text \<open>
  Claim C1. For every draft whose title is the empty string or whose content is the empty
  string, \<open>createNote\<close> issues no network call, sets the status message to
  \<open>"Error: Note title and content are required."\<close> (which starts with \<open>Error:\<close>), and
  leaves the local note list unchanged.
\<close>

theorem createNote_rejects_empty_field:
  assumes "note st = Some n" and "title n = [] \<or> content n = []"
  shows "requests (createNote st r) = requests st
       \<and> message (createNote st r) = JStr ''Error: Note title and content are required.''
       \<and> is_error_message (message (createNote st r))
       \<and> apiData (createNote st r) = apiData st"
  using assms by (auto simp: createNote_def createNote_try_def required_error_def)

text \<open>The scenario of the draft \<open>{title: "", content: "x"}\<close>, on the freshly mounted component.\<close>

theorem createNote_rejects_empty_field_witness:
  "note (initial\<lparr>note := Some \<lparr>id' = 0, title = [], content = ''x''\<rparr>\<rparr>)
     = Some \<lparr>id' = 0, title = [], content = ''x''\<rparr>
   \<and> title \<lparr>id' = 0, title = [], content = ''x''\<rparr> = []
   \<and> requests (createNote (initial\<lparr>note := Some \<lparr>id' = 0, title = [], content = ''x''\<rparr>\<rparr>)
        (Body JNull)) = []
   \<and> message (createNote (initial\<lparr>note := Some \<lparr>id' = 0, title = [], content = ''x''\<rparr>\<rparr>)
        (Body JNull)) = JStr ''Error: Note title and content are required.''
   \<and> apiData (createNote (initial\<lparr>note := Some \<lparr>id' = 0, title = [], content = ''x''\<rparr>\<rparr>)
        (Body JNull)) = JNull"
proof -
  let ?n = "\<lparr>id' = 0, title = [], content = ''x''\<rparr>"
  let ?st = "initial\<lparr>note := Some ?n\<rparr>"
  have draft: "note ?st = Some ?n"
    by simp
  have empty: "title ?n = [] \<or> content ?n = []"
    by simp
  show ?thesis
    using createNote_rejects_empty_field [OF draft empty, of "Body JNull"]
    by (simp add: initial_def)
qed

subsection \<open>createNote: the POST has resolved\<close>

text \<open>
  Claim C2. For every create whose POST resolves and whose body parses to the note the
  server returns (an object), that note is appended to the local list exactly once, at
  the end and with the previous entries unchanged, the draft is reset to the unsaved
  sentinel \<open>{id: 0, title: "", content: ""}\<close>, and the status is
  \<open>"Note created successfully!"\<close>. The POST is issued for a draft with a non-empty
  title and content; the local list is an array or falsy (\<open>null\<close> before the first load).
\<close>

theorem createNote_appends_returned_note:
  assumes "note st = Some n" and "title n \<noteq> []" and "content n \<noteq> []"
    and "\<not> truthy (apiData st) \<or> apiData st = JArr xs"
  shows "apiData (createNote st (Body (JObj m))) = JArr (entries (apiData st) @ [JObj m])
       \<and> note (createNote st (Body (JObj m))) = Some sentinel
       \<and> message (createNote st (Body (JObj m))) = JStr ''Note created successfully!''
       \<and> requests (createNote st (Body (JObj m))) = requests st @ [POST n]"
  by (simp add: createNote_posted [OF assms])

text \<open>The scenario of the Milk draft, answered with the note of id 7.\<close>

theorem createNote_appends_returned_note_witness:
  "note (initial\<lparr>note := Some milk_draft\<rparr>) = Some milk_draft
   \<and> title milk_draft \<noteq> [] \<and> content milk_draft \<noteq> []
   \<and> apiData (createNote (initial\<lparr>note := Some milk_draft\<rparr>) (Body (note_json milk_saved)))
       = JArr [note_json milk_saved]
   \<and> note (createNote (initial\<lparr>note := Some milk_draft\<rparr>) (Body (note_json milk_saved)))
       = Some \<lparr>id' = 0, title = [], content = []\<rparr>
   \<and> message (createNote (initial\<lparr>note := Some milk_draft\<rparr>) (Body (note_json milk_saved)))
       = JStr ''Note created successfully!''
   \<and> requests (createNote (initial\<lparr>note := Some milk_draft\<rparr>) (Body (note_json milk_saved)))
       = [POST milk_draft]"
proof -
  let ?st = "initial\<lparr>note := Some milk_draft\<rparr>"
  have draft: "note ?st = Some milk_draft" "title milk_draft \<noteq> []" "content milk_draft \<noteq> []"
    by (simp_all add: milk_draft_def)
  have list: "\<not> truthy (apiData ?st) \<or> apiData ?st = JArr []"
    by (simp add: initial_def)
  show ?thesis
    using createNote_appends_returned_note [OF draft list] draft
    by (simp add: initial_def note_json_def sentinel_def)
qed

text \<open>
  Claim C9. Whenever the POST of \<open>createNote\<close> resolves and its body parses, the parsed
  value is appended to the local list and the draft is reset to the sentinel whatever the
  value is: also when it is falsy (\<open>null\<close>, say) and the status is set to
  \<open>"Error: Failed to create note."\<close>. On that path neither the list nor the draft stays
  as it was.
\<close>

theorem createNote_appends_any_parsed_value:
  assumes "note st = Some n" and "title n \<noteq> []" and "content n \<noteq> []"
    and "\<not> truthy (apiData st) \<or> apiData st = JArr xs"
  shows "apiData (createNote st (Body d)) = JArr (entries (apiData st) @ [d])
       \<and> note (createNote st (Body d)) = Some sentinel
       \<and> (\<not> truthy d \<longrightarrow> message (createNote st (Body d)) = JStr ''Error: Failed to create note.'')
       \<and> apiData (createNote st (Body d)) \<noteq> apiData st
       \<and> note (createNote st (Body d)) \<noteq> note st"
proof -
  have draft: "Some sentinel \<noteq> note st"
    using assms(1,2) by (auto simp: sentinel_def)
  have list: "JArr (entries (apiData st) @ [d]) \<noteq> apiData st"
    using assms(4) by (cases "apiData st") auto
  show ?thesis
    using draft list by (simp add: createNote_posted [OF assms])
qed

text \<open>The Milk draft, answered with the body \<open>null\<close>.\<close>

theorem createNote_appends_any_parsed_value_witness:
  "note (initial\<lparr>note := Some milk_draft\<rparr>) = Some milk_draft
   \<and> title milk_draft \<noteq> [] \<and> content milk_draft \<noteq> []
   \<and> \<not> truthy JNull
   \<and> apiData (createNote (initial\<lparr>note := Some milk_draft\<rparr>) (Body JNull)) = JArr [JNull]
   \<and> note (createNote (initial\<lparr>note := Some milk_draft\<rparr>) (Body JNull)) = Some sentinel
   \<and> message (createNote (initial\<lparr>note := Some milk_draft\<rparr>) (Body JNull))
       = JStr ''Error: Failed to create note.''"
proof -
  let ?st = "initial\<lparr>note := Some milk_draft\<rparr>"
  have draft: "note ?st = Some milk_draft" "title milk_draft \<noteq> []" "content milk_draft \<noteq> []"
    by (simp_all add: milk_draft_def)
  have list: "\<not> truthy (apiData ?st) \<or> apiData ?st = JArr []"
    by (simp add: initial_def)
  show ?thesis
    using createNote_appends_any_parsed_value [OF draft list, of JNull] draft list
    by (auto simp: initial_def)
qed

subsection \<open>deleteNote\<close>

text \<open>
  Claim C3, as amended. For every successful delete (the \<open>try\<close> block runs to its end)
  of an id present in the local list, the resulting list has no entry with that id and is
  shorter by the number of entries that carried the id: by exactly one when the id
  occurs exactly once, by more when it occurs several times.
\<close>

theorem deleteNote_removes_all_with_id:
  assumes "deleteNote_try st i r = Completed st'" and "apiData st = JArr xs"
    and "\<exists>v\<in>set xs. has_id i v"
  shows "deleteNote st i r = st'
       \<and> (\<forall>v\<in>set (entries (apiData st')). \<not> has_id i v)
       \<and> length (entries (apiData st')) + length (filter (has_id i) xs) = length xs
       \<and> length (entries (apiData st')) < length xs
       \<and> (length (filter (has_id i) xs) = 1 \<longrightarrow> length (entries (apiData st')) + 1 = length xs)"
proof -
  have run: "deleteNote st i r = st'"
    using assms(1) by (rule deleteNote_Completed)
  have list: "entries (apiData st') = filter (\<lambda>v. \<not> has_id i v) xs"
    using deleteNote_try_array [OF assms(1,2)] by simp
  have count: "length (filter (\<lambda>v. \<not> has_id i v) xs) + length (filter (has_id i) xs) = length xs"
    using sum_length_filter_compl [of "has_id i" xs] by simp
  have some: "0 < length (filter (has_id i) xs)"
    using assms(3) by (simp add: filter_empty_conv)
  have less: "length (filter (\<lambda>v. \<not> has_id i v) xs) < length xs"
    using count some by arith
  show ?thesis
    using run list count less by simp
qed

text \<open>Deleting the one note of id 7 from a list that holds only it.\<close>

theorem deleteNote_removes_all_with_id_witness:
  "deleteNote_try (initial\<lparr>apiData := JArr [note_json milk_saved]\<rparr>) 7 (result_body ''Note deleted'')
     = Completed (deleteNote (initial\<lparr>apiData := JArr [note_json milk_saved]\<rparr>) 7
         (result_body ''Note deleted''))
   \<and> has_id 7 (note_json milk_saved)
   \<and> entries (apiData (deleteNote (initial\<lparr>apiData := JArr [note_json milk_saved]\<rparr>) 7
        (result_body ''Note deleted''))) = []"
proof -
  let ?st = "initial\<lparr>apiData := JArr [note_json milk_saved]\<rparr>"
  let ?r = "result_body ''Note deleted''"
  have run: "deleteNote_try ?st 7 ?r = Completed (deleteNote ?st 7 ?r)"
    by (simp add: deleteNote_def deleteNote_try_def ex_defs)
  have list: "apiData ?st = JArr [note_json milk_saved]"
    by simp
  have present: "\<exists>v\<in>set [note_json milk_saved]. has_id 7 v"
    by (simp add: ex_defs)
  show ?thesis
    using deleteNote_removes_all_with_id [OF run list present] run present by simp
qed

text \<open>
  The claim as first stated asks for a list shorter by exactly one. In \<open>twins\<close> two
  entries carry id 1; a successful delete of id 1 removes both, so the list goes from
  two entries to none.
\<close>

theorem deleteNote_twins_counterexample:
  "deleteNote_try twins 1 (result_body ''Note deleted'')
     = Completed (deleteNote twins 1 (result_body ''Note deleted''))
   \<and> has_id 1 (note_json \<lparr>id' = 1, title = ''a'', content = ''b''\<rparr>)
   \<and> note_json \<lparr>id' = 1, title = ''a'', content = ''b''\<rparr> \<in> set (entries (apiData twins))
   \<and> length (entries (apiData twins)) = 2
   \<and> length (entries (apiData (deleteNote twins 1 (result_body ''Note deleted'')))) = 0
   \<and> length (entries (apiData (deleteNote twins 1 (result_body ''Note deleted''))))
       \<noteq> length (entries (apiData twins)) - 1"
  by (simp add: deleteNote_def deleteNote_try_def twins_def ex_defs)

subsection \<open>updateNote\<close>

text \<open>
  Claim C4. For every successful update (the \<open>try\<close> block runs to its end) of an id
  present in the local list, every entry of the list is left as it was, the matching
  entry being merged with itself; so the length is unchanged and an entry with that id
  still exists.
\<close>

theorem updateNote_leaves_list_unchanged:
  assumes "updateNote_try st i r = Completed st'" and "apiData st = JArr xs"
    and "\<exists>v\<in>set xs. has_id i v"
  shows "updateNote st i r = st'
       \<and> apiData st' = JArr xs
       \<and> length (entries (apiData st')) = length xs
       \<and> (\<exists>v\<in>set (entries (apiData st')). has_id i v)"
  using updateNote_Completed [OF assms(1)] updateNote_try_array [OF assms(1,2)] assms(3)
  by simp

text \<open>Updating the note of id 7 in a list that holds it.\<close>

theorem updateNote_leaves_list_unchanged_witness:
  "updateNote_try (initial\<lparr>apiData := JArr [note_json milk_saved]\<rparr>) 7 (result_body ''Note updated'')
     = Completed (updateNote (initial\<lparr>apiData := JArr [note_json milk_saved]\<rparr>) 7
         (result_body ''Note updated''))
   \<and> has_id 7 (note_json milk_saved)
   \<and> apiData (updateNote (initial\<lparr>apiData := JArr [note_json milk_saved]\<rparr>) 7
        (result_body ''Note updated'')) = JArr [note_json milk_saved]"
proof -
  let ?st = "initial\<lparr>apiData := JArr [note_json milk_saved]\<rparr>"
  let ?r = "result_body ''Note updated''"
  have run: "updateNote_try ?st 7 ?r = Completed (updateNote ?st 7 ?r)"
    by (simp add: updateNote_def updateNote_try_def ex_defs)
  have list: "apiData ?st = JArr [note_json milk_saved]"
    by simp
  have present: "\<exists>v\<in>set [note_json milk_saved]. has_id 7 v"
    by (simp add: ex_defs)
  show ?thesis
    using updateNote_leaves_list_unchanged [OF run list present] run present by simp
qed

subsection \<open>A list that was never loaded\<close>

text \<open>
  Claim C10. If the local note list has never been loaded (it is \<open>null\<close>), a successful
  \<open>updateNote\<close> or \<open>deleteNote\<close> sets it to the empty list, for every id.
\<close>

theorem never_loaded_list_becomes_empty:
  assumes "apiData st = JNull"
  shows "(updateNote_try st i r = Completed su \<longrightarrow> apiData (updateNote st i r) = JArr [])
       \<and> (deleteNote_try st j r' = Completed sd \<longrightarrow> apiData (deleteNote st j r') = JArr [])"
  using assms
  by (auto simp: updateNote_def updateNote_try_def deleteNote_def deleteNote_try_def Let_def
      split: response.splits sum.splits)

text \<open>On the freshly mounted component, with bodies that carry a \<open>result\<close>.\<close>

theorem never_loaded_list_becomes_empty_witness:
  "apiData initial = JNull
   \<and> updateNote_try initial 7 (result_body ''Note updated'')
       = Completed (updateNote initial 7 (result_body ''Note updated''))
   \<and> deleteNote_try initial 7 (result_body ''Note deleted'')
       = Completed (deleteNote initial 7 (result_body ''Note deleted''))
   \<and> apiData (updateNote initial 7 (result_body ''Note updated'')) = JArr []
   \<and> apiData (deleteNote initial 7 (result_body ''Note deleted'')) = JArr []"
proof -
  have fresh: "apiData initial = JNull"
    by (simp add: initial_def)
  have upd: "updateNote_try initial 7 (result_body ''Note updated'')
       = Completed (updateNote initial 7 (result_body ''Note updated''))"
    by (simp add: updateNote_def updateNote_try_def ex_defs)
  have del: "deleteNote_try initial 7 (result_body ''Note deleted'')
       = Completed (deleteNote initial 7 (result_body ''Note deleted''))"
    by (simp add: deleteNote_def deleteNote_try_def ex_defs)
  show ?thesis
    using never_loaded_list_becomes_empty [OF fresh, of 7 "result_body ''Note updated''"
        "updateNote initial 7 (result_body ''Note updated'')" 7 "result_body ''Note deleted''"
        "deleteNote initial 7 (result_body ''Note deleted'')"]
      fresh upd del
    by simp
qed

subsection \<open>fetchData\<close>

text \<open>
  Claim C5. For every run of \<open>fetchData\<close> that fails with a network or a parse error,
  the local note list keeps its previous value; and in every run, failed or not, the
  loading flag is cleared at the end.
\<close>

theorem fetchData_failure_keeps_list:
  "apiData (fetchData st NetworkError) = apiData st
   \<and> apiData (fetchData st ParseError) = apiData st
   \<and> isLoading (fetchData st r) = False"
  by (simp add: fetchData_def fetchData_try_def Let_def split: response.splits)

text \<open>
  Claim C7. Idempotence of \<open>fetchData\<close>: run twice against an unchanged server response,
  the local note list after the second run is the list after the first run.
\<close>

theorem fetchData_idempotent:
  "apiData (fetchData (fetchData st r) r) = apiData (fetchData st r)"
  by (cases r) (simp_all add: fetchData_def fetchData_try_def Let_def)

subsection \<open>Order of the list\<close>

text \<open>
  Claim C8. Every client-side mutation of the note list keeps the relative order of the
  entries it retains: \<open>createNote\<close> keeps the old entries as a prefix of the new list,
  \<open>updateNote\<close> leaves the sequence of entries as it was, \<open>deleteNote\<close> yields a
  subsequence of the old entries, and \<open>fetchData\<close> stores the server's value as
  received; nothing sorts.
\<close>

theorem list_order_preserved:
  "prefix (entries (apiData st)) (entries (apiData (createNote st r)))
   \<and> entries (apiData (updateNote st i r)) = entries (apiData st)
   \<and> subseq (entries (apiData (deleteNote st i r))) (entries (apiData st))
   \<and> apiData (fetchData st (Body d)) = d"
  using createNote_entries_prefix updateNote_entries deleteNote_entries_subseq
  by (simp add: fetchData_def fetchData_try_def Let_def)

subsection \<open>The reset timer\<close>

text \<open>
  Claim C6, as amended. A run of the reset effect with a truthy status message (neither
  \<open>null\<close> nor empty) schedules exactly one timer, with the fixed delay of 3000 ms; when
  a timer fires, the status message and the draft are both \<open>null\<close> and exactly one
  refetch of the note list has been issued.
\<close>

theorem resetEffect_one_timer_one_refetch:
  assumes "truthy (message st)"
  shows "timers (resetEffect st) = timers st @ [3000]
       \<and> message (resetCallback st' r) = JNull
       \<and> note (resetCallback st' r) = None
       \<and> requests (resetCallback st' r) = requests st' @ [GET]"
  using assms
  by (cases r)
    (simp_all add: resetEffect_def resetCallback_def fetchData_def fetchData_try_def Let_def)

text \<open>The status set by a create without a draft, then the timer firing.\<close>

theorem resetEffect_one_timer_one_refetch_witness:
  "truthy (message (createNote initial NetworkError))
   \<and> timers (resetEffect (createNote initial NetworkError)) = [3000]
   \<and> message (resetCallback (resetEffect (createNote initial NetworkError)) (Body (JArr []))) = JNull
   \<and> note (resetCallback (resetEffect (createNote initial NetworkError)) (Body (JArr []))) = None
   \<and> requests (resetCallback (resetEffect (createNote initial NetworkError)) (Body (JArr []))) = [GET]"
proof -
  have shown: "truthy (message (createNote initial NetworkError))"
    by (simp add: createNote_def createNote_try_def required_error_def initial_def)
  have quiet: "timers (createNote initial NetworkError) = []"
      "requests (resetEffect (createNote initial NetworkError)) = []"
    by (simp_all add: resetEffect_def createNote_def createNote_try_def required_error_def
        initial_def)
  show ?thesis
    using resetEffect_one_timer_one_refetch
      [OF shown, of "resetEffect (createNote initial NetworkError)" "Body (JArr [])"]
      shown quiet
    by simp
qed

text \<open>
  The claim as first stated promises exactly one refetch after any non-null status.
  A delete answered with \<open>{ result: "" }\<close> sets the status to the empty string, which is
  not \<open>null\<close>, and the effect then schedules no timer: no refetch. And after the status
  of a create without a draft, typing one character into the title changes \<open>note\<close>, the
  effect runs again with the status still shown, and two timers are pending: two
  refetches.
\<close>

theorem resetEffect_counterexample:
  "message (deleteNote initial 1 (result_body [])) = JStr []
   \<and> JStr [] \<noteq> JNull
   \<and> timers (resetEffect (deleteNote initial 1 (result_body []))) = []
   \<and> message (createNote initial NetworkError) \<noteq> JNull
   \<and> timers (resetEffect (onChangeTitle (resetEffect (createNote initial NetworkError)) ''a''))
       = [3000, 3000]"
  by (simp add: deleteNote_def deleteNote_try_def createNote_def createNote_try_def
      required_error_def resetEffect_def onChangeTitle_def ex_defs)

end
